theory Spec2Isabelle
  imports Main "HOL-Library.Word" "HOL-Library.Sublist"
begin

section \<open>The leak tracker of leak\_tracker.c\<close>

text \<open>
  The tracker wraps the C library's allocator. Its state is the set of file-level
  variables of leak\_tracker.c: two singly linked lists and seven scalars. A linked list
  is modelled by the list of its nodes, head first. \<open>size_t\<close> and \<open>void*\<close> are taken
  as 64-bit words (an LP64 target); \<open>+\<close> and \<open>*\<close> on \<open>size_t\<close> wrap around as in C.
  A pointer is only ever compared, with \<open>NULL\<close> or with another pointer.
\<close>

type_synonym size_t = "64 word"
type_synonym void_ptr = "64 word"

abbreviation (input) NULL :: void_ptr where
  "NULL \<equiv> 0"

text \<open>\<open>struct AllocInfo\<close> without its \<open>next\<close> link; \<open>struct FreedInfo\<close> is its \<open>ptr\<close> alone.\<close>

record AllocInfo =
  a_ptr :: void_ptr
  a_size :: size_t
  a_file :: string
  a_line :: int

text \<open>The lines the tracker writes to \<open>stderr\<close>, one constructor for each \<open>fprintf\<close>.\<close>

datatype diag =
    Tracking_node_failed
  | FreedInfo_failed
  | Malloc_failed size_t string int
  | Calloc_failed size_t size_t string int
  | Realloc_null_failed size_t string int
  | Realloc_failed void_ptr size_t string int
  | Double_free void_ptr string int
  | Free_untracked void_ptr string int
  | Realloc_untracked void_ptr string int

text \<open>
  What the tracker does to the outside world, in the order it does it: the registration
  of the exit handler, the calls of the real allocator for the caller's blocks with the
  value they returned, and the diagnostics.
\<close>

datatype event =
    Atexit_leak_report
  | Real_malloc size_t void_ptr
  | Real_calloc size_t size_t void_ptr
  | Real_realloc void_ptr size_t void_ptr
  | Real_free void_ptr
  | Stderr diag

record tracker =
  head_allocs :: "AllocInfo list"
  head_freed :: "void_ptr list"
  total_alloc_calls :: size_t
  total_free_calls :: size_t
  total_bytes_allocated :: size_t
  total_bytes_freed :: size_t
  invalid_free_count :: size_t
  double_free_count :: size_t
  atexit_registered :: int
  events :: "event list"

definition init_tracker :: tracker where
  "init_tracker =
     \<lparr>head_allocs = [], head_freed = [], total_alloc_calls = 0, total_free_calls = 0,
      total_bytes_allocated = 0, total_bytes_freed = 0, invalid_free_count = 0,
      double_free_count = 0, atexit_registered = 0, events = []\<rparr>"

text \<open>
  The real allocator is outside the tracker. What it answers during one call of a
  wrapper is an argument of the wrapper: \<open>ret\<close> is the value the real
  \<open>malloc\<close>, \<open>calloc\<close> or \<open>realloc\<close> returns for the caller's request (\<open>NULL\<close> when it
  fails), \<open>alloc_node\<close> says whether \<open>malloc(sizeof(AllocInfo))\<close> succeeds,
  \<open>freed_node\<close> whether \<open>malloc(sizeof(FreedInfo))\<close> does.
\<close>

record libc =
  ret :: void_ptr
  alloc_node :: bool
  freed_node :: bool

definition emit :: "event \<Rightarrow> tracker \<Rightarrow> tracker" where
  "emit e s = s\<lparr>events := events s @ [e]\<rparr>"

definition register_leak_report :: "tracker \<Rightarrow> tracker" where
  "register_leak_report s =
     (if atexit_registered s = 0
      then (emit Atexit_leak_report s)\<lparr>atexit_registered := 1\<rparr>
      else s)"

definition record_allocation ::
    "bool \<Rightarrow> void_ptr \<Rightarrow> size_t \<Rightarrow> string \<Rightarrow> int \<Rightarrow> tracker \<Rightarrow> tracker" where
  "record_allocation node_ok p sz file line s =
     (if \<not> node_ok then emit (Stderr Tracking_node_failed) s
      else s\<lparr>head_allocs :=
                \<lparr>a_ptr = p, a_size = sz, a_file = file, a_line = line\<rparr> # head_allocs s,
             total_alloc_calls := total_alloc_calls s + 1,
             total_bytes_allocated := total_bytes_allocated s + sz\<rparr>)"

text \<open>
  The loop of \<open>remove_allocation_node\<close>: the first node whose \<open>ptr\<close> is \<open>p\<close> is unlinked
  and its size returned; \<open>None\<close> is the return value 0.
\<close>

fun unlink_node :: "void_ptr \<Rightarrow> AllocInfo list \<Rightarrow> (size_t \<times> AllocInfo list) option" where
  "unlink_node p [] = None"
| "unlink_node p (cur # rest) =
     (if a_ptr cur = p then Some (a_size cur, rest)
      else (case unlink_node p rest of
              None \<Rightarrow> None
            | Some (sz, rest') \<Rightarrow> Some (sz, cur # rest')))"

definition remove_allocation_node :: "void_ptr \<Rightarrow> tracker \<Rightarrow> size_t option \<times> tracker" where
  "remove_allocation_node p s =
     (case unlink_node p (head_allocs s) of
        None \<Rightarrow> (None, s)
      | Some (sz, rest) \<Rightarrow> (Some sz, s\<lparr>head_allocs := rest\<rparr>))"

fun is_in_freed_list :: "void_ptr \<Rightarrow> void_ptr list \<Rightarrow> bool" where
  "is_in_freed_list p [] = False"
| "is_in_freed_list p (cur # rest) = (if cur = p then True else is_in_freed_list p rest)"

definition add_to_freed_list :: "bool \<Rightarrow> void_ptr \<Rightarrow> tracker \<Rightarrow> tracker" where
  "add_to_freed_list node_ok p s =
     (if \<not> node_ok then emit (Stderr FreedInfo_failed) s
      else s\<lparr>head_freed := p # head_freed s\<rparr>)"

text \<open>
  \<open>leak_report\<close> prints the six counters, then either "No leaks detected!" or one line
  for each node of the active list followed by the two totals its loop accumulates.
\<close>

fun leak_loop :: "AllocInfo list \<Rightarrow> size_t \<times> size_t \<Rightarrow> size_t \<times> size_t" where
  "leak_loop [] acc = acc"
| "leak_loop (cur # rest) (leaked_blocks, leaked_bytes) =
     leak_loop rest (leaked_blocks + 1, leaked_bytes + a_size cur)"

record report =
  rep_alloc_calls :: size_t
  rep_free_calls :: size_t
  rep_bytes_allocated :: size_t
  rep_bytes_freed :: size_t
  rep_double_free :: size_t
  rep_invalid_free :: size_t
  rep_leaks :: "AllocInfo list"
  rep_summary :: "(size_t \<times> size_t) option"

definition leak_report :: "tracker \<Rightarrow> report" where
  "leak_report s =
     \<lparr>rep_alloc_calls = total_alloc_calls s,
      rep_free_calls = total_free_calls s,
      rep_bytes_allocated = total_bytes_allocated s,
      rep_bytes_freed = total_bytes_freed s,
      rep_double_free = double_free_count s,
      rep_invalid_free = invalid_free_count s,
      rep_leaks = head_allocs s,
      rep_summary = (if head_allocs s = [] then None
                     else Some (leak_loop (head_allocs s) (0, 0)))\<rparr>"

subsection \<open>The four wrappers\<close>

definition my_malloc ::
    "libc \<Rightarrow> size_t \<Rightarrow> string \<Rightarrow> int \<Rightarrow> tracker \<Rightarrow> void_ptr \<times> tracker" where
  "my_malloc E sz file line s =
     (let s1 = (if atexit_registered s = 0 then register_leak_report s else s);
          p = ret E;
          s2 = emit (Real_malloc sz p) s1
      in if p = NULL then (NULL, emit (Stderr (Malloc_failed sz file line)) s2)
         else (p, record_allocation (alloc_node E) p sz file line s2))"

definition my_calloc ::
    "libc \<Rightarrow> size_t \<Rightarrow> size_t \<Rightarrow> string \<Rightarrow> int \<Rightarrow> tracker \<Rightarrow> void_ptr \<times> tracker" where
  "my_calloc E nmemb sz file line s =
     (let s1 = (if atexit_registered s = 0 then register_leak_report s else s);
          p = ret E;
          s2 = emit (Real_calloc nmemb sz p) s1
      in if p = NULL then (NULL, emit (Stderr (Calloc_failed nmemb sz file line)) s2)
         else (p, record_allocation (alloc_node E) p (nmemb * sz) file line s2))"

definition my_free :: "libc \<Rightarrow> void_ptr \<Rightarrow> string \<Rightarrow> int \<Rightarrow> tracker \<Rightarrow> tracker" where
  "my_free E p file line s =
     (let s1 = s\<lparr>total_free_calls := total_free_calls s + 1\<rparr>
      in if p = NULL then s1
         else (case remove_allocation_node p s1 of
                 (Some block_size, s2) \<Rightarrow>
                   emit (Real_free p)
                     (add_to_freed_list (freed_node E) p
                        (s2\<lparr>total_bytes_freed := total_bytes_freed s2 + block_size\<rparr>))
               | (None, s2) \<Rightarrow>
                   (if is_in_freed_list p (head_freed s2)
                    then emit (Stderr (Double_free p file line))
                           (s2\<lparr>double_free_count := double_free_count s2 + 1\<rparr>)
                    else emit (Stderr (Free_untracked p file line))
                           (s2\<lparr>invalid_free_count := invalid_free_count s2 + 1\<rparr>))))"

definition my_realloc ::
    "libc \<Rightarrow> void_ptr \<Rightarrow> size_t \<Rightarrow> string \<Rightarrow> int \<Rightarrow> tracker \<Rightarrow> void_ptr \<times> tracker" where
  "my_realloc E p sz file line s =
     (let s1 = (if atexit_registered s = 0 then register_leak_report s else s)
      in if p = NULL then
           (let newptr = ret E;
                s2 = emit (Real_malloc sz newptr) s1
            in if newptr = NULL
               then (NULL, emit (Stderr (Realloc_null_failed sz file line)) s2)
               else (newptr, record_allocation (alloc_node E) newptr sz file line s2))
         else if sz = 0 then (NULL, my_free E p file line s1)
         else (case remove_allocation_node p s1 of
                 (None, s2) \<Rightarrow>
                   (let s3 = (if is_in_freed_list p (head_freed s2)
                              then emit (Stderr (Double_free p file line))
                                     (s2\<lparr>double_free_count := double_free_count s2 + 1\<rparr>)
                              else emit (Stderr (Realloc_untracked p file line))
                                     (s2\<lparr>invalid_free_count := invalid_free_count s2 + 1\<rparr>))
                    in (ret E, emit (Real_realloc p sz (ret E)) s3))
               | (Some old_size, s2) \<Rightarrow>
                   (let newptr = ret E;
                        s3 = emit (Real_realloc p sz newptr) s2
                    in if newptr = NULL
                       then (NULL, emit (Stderr (Realloc_failed p sz file line)) s3)
                       else (let s4 = add_to_freed_list (freed_node E) p s3;
                                 s5 = record_allocation (alloc_node E) newptr sz file line s4
                             in (newptr,
                                 s5\<lparr>total_bytes_freed := total_bytes_freed s5 + old_size\<rparr>)))))"

subsection \<open>Client programs\<close>

text \<open>
  A client program is the sequence of its calls of the four wrappers, as
  demo\_allocs.c is once the macros of leak\_tracker.h are expanded. Each call carries
  the answers of the real allocator during that call.
\<close>

datatype call =
    Malloc libc size_t string int
  | Calloc libc size_t size_t string int
  | Realloc libc void_ptr size_t string int
  | Free libc void_ptr string int

fun exec :: "call \<Rightarrow> tracker \<Rightarrow> tracker" where
  "exec (Malloc E sz file line) s = snd (my_malloc E sz file line s)"
| "exec (Calloc E nmemb sz file line) s = snd (my_calloc E nmemb sz file line s)"
| "exec (Realloc E p sz file line) s = snd (my_realloc E p sz file line s)"
| "exec (Free E p file line) s = my_free E p file line s"

fun run :: "call list \<Rightarrow> tracker \<Rightarrow> tracker" where
  "run [] s = s"
| "run (c # cs) s = run cs (exec c s)"

text \<open>The identities in the active list, and the byte total \<open>leak_report\<close> computes for it.\<close>

definition ledger_ptrs :: "tracker \<Rightarrow> void_ptr list" where
  "ledger_ptrs s = map a_ptr (head_allocs s)"

definition leaked_bytes :: "tracker \<Rightarrow> size_t" where
  "leaked_bytes s = snd (leak_loop (head_allocs s) (0, 0))"

definition ledger_balanced :: "tracker \<Rightarrow> bool" where
  "ledger_balanced s \<longleftrightarrow> leaked_bytes s = total_bytes_allocated s - total_bytes_freed s"

text \<open>The file-level variables alone: the state without the record of outside effects.\<close>

definition globals :: "tracker \<Rightarrow> tracker" where
  "globals s = s\<lparr>events := []\<rparr>"

fun is_diag :: "event \<Rightarrow> bool" where
  "is_diag (Stderr d) = True"
| "is_diag e = False"

text \<open>
  A \<open>my_realloc\<close> of a tracked block, with a size other than 0, whose real \<open>realloc\<close>
  returns \<open>NULL\<close>.
\<close>

fun lost_resize :: "call \<Rightarrow> tracker \<Rightarrow> bool" where
  "lost_resize (Realloc E p sz file line) s =
     (p \<noteq> NULL \<and> sz \<noteq> 0 \<and> p \<in> set (ledger_ptrs s) \<and> ret E = NULL)"
| "lost_resize c s = False"

fun no_lost_resize :: "call list \<Rightarrow> tracker \<Rightarrow> bool" where
  "no_lost_resize [] s = True"
| "no_lost_resize (c # cs) s = (\<not> lost_resize c s \<and> no_lost_resize cs (exec c s))"

text \<open>
  A sequence of \<open>my_malloc\<close> and \<open>my_free\<close> calls in matching pairs, given the blocks
  allocated and not yet released: every allocation of the real allocator succeeds (the
  block and the tracking node), every release is of a block allocated and not yet
  released, and at the end every block has been released.
\<close>

fun matched :: "void_ptr list \<Rightarrow> call list \<Rightarrow> bool" where
  "matched live [] = (live = [])"
| "matched live (Malloc E sz file line # cs) =
     (ret E \<noteq> NULL \<and> alloc_node E \<and> matched (ret E # live) cs)"
| "matched live (Free E p file line # cs) = (p \<in> set live \<and> matched (remove1 p live) cs)"
| "matched live (c # cs) = False"

text \<open>
  The size the active list holds for \<open>p\<close>: that of the first node whose \<open>ptr\<close> is \<open>p\<close>,
  the one \<open>remove_allocation_node\<close> reads; 0 when there is none.
\<close>

definition recorded_size :: "void_ptr \<Rightarrow> tracker \<Rightarrow> size_t" where
  "recorded_size p s =
     (case find (\<lambda>a. a_ptr a = p) (head_allocs s) of None \<Rightarrow> 0 | Some a \<Rightarrow> a_size a)"

text \<open>
  Two facts of every state a program can reach: \<open>record_allocation\<close> is never given
  \<open>NULL\<close>, and it only runs after the flag has been set.
\<close>

definition wf_tracker :: "tracker \<Rightarrow> bool" where
  "wf_tracker s \<longleftrightarrow>
     NULL \<notin> set (ledger_ptrs s) \<and> (atexit_registered s = 0 \<longrightarrow> head_allocs s = [])"

subsection \<open>Answers of the real allocator, and the demonstration program\<close>

text \<open>
  \<open>served p\<close>: the real allocator returns \<open>p\<close> and both kinds of bookkeeping node
  can be allocated. \<open>exhausted\<close>: every allocation fails. \<open>no_freed_node\<close>: only the
  \<open>FreedInfo\<close> node cannot be allocated.
\<close>

definition served :: "void_ptr \<Rightarrow> libc" where
  "served p = \<lparr>ret = p, alloc_node = True, freed_node = True\<rparr>"

definition exhausted :: libc where
  "exhausted = \<lparr>ret = NULL, alloc_node = False, freed_node = False\<rparr>"

definition no_freed_node :: libc where
  "no_freed_node = \<lparr>ret = NULL, alloc_node = True, freed_node = False\<rparr>"

text \<open>
  \<open>main\<close> of demo\_allocs.c with 4-byte \<open>int\<close> and \<open>float\<close>: the three blocks are
  served at 0x1000, 0x2000 and again 0x1000, and the stack variable lies at 0x7ffc0000.
\<close>

definition demo_allocs :: "call list" where
  "demo_allocs =
     [Malloc (served 0x1000) 20 ''demo_allocs.c'' 16,
      Free (served NULL) 0x1000 ''demo_allocs.c'' 21,
      Malloc (served 0x2000) 20 ''demo_allocs.c'' 25,
      Malloc (served 0x1000) 12 ''demo_allocs.c'' 32,
      Free (served NULL) 0x1000 ''demo_allocs.c'' 37,
      Free (served NULL) 0x1000 ''demo_allocs.c'' 38,
      Free (served NULL) 0x7ffc0000 ''demo_allocs.c'' 43]"

section \<open>Properties of the helper functions\<close>

lemmas eval_defs =
  my_malloc_def my_calloc_def my_realloc_def my_free_def record_allocation_def
  add_to_freed_list_def remove_allocation_node_def register_leak_report_def emit_def
  init_tracker_def served_def exhausted_def no_freed_node_def ledger_ptrs_def Let_def

lemma leak_loop_eq:
  "leak_loop xs (b, n) = (b + of_nat (length xs), n + sum_list (map a_size xs))"
  by (induction xs arbitrary: b n) (auto simp: algebra_simps)

lemma leaked_bytes_eq: "leaked_bytes s = sum_list (map a_size (head_allocs s))"
  by (simp add: leaked_bytes_def leak_loop_eq)

lemma balanced_iff:
  "ledger_balanced s \<longleftrightarrow>
     sum_list (map a_size (head_allocs s)) + total_bytes_freed s = total_bytes_allocated s"
  by (simp add: ledger_balanced_def leaked_bytes_eq eq_diff_eq)

lemma is_in_freed_list_iff: "is_in_freed_list p xs \<longleftrightarrow> p \<in> set xs"
  by (induction xs) auto

lemma unlink_node_None: "unlink_node p xs = None \<longleftrightarrow> p \<notin> set (map a_ptr xs)"
  by (induction xs) (auto split: option.splits)

lemma unlink_node_Some_sum:
  "unlink_node p xs = Some (sz, r) \<Longrightarrow>
   sum_list (map a_size xs) = sz + sum_list (map a_size r)"
  by (induction xs arbitrary: r) (auto split: option.splits if_splits simp: algebra_simps)

lemma unlink_node_Some_ptrs:
  "unlink_node p xs = Some (sz, r) \<Longrightarrow> map a_ptr r = remove1 p (map a_ptr xs)"
  by (induction xs arbitrary: r) (auto split: option.splits if_splits)

lemma unlink_node_Some_length:
  "unlink_node p xs = Some (sz, r) \<Longrightarrow> length xs = Suc (length r)"
  by (induction xs arbitrary: r) (auto split: option.splits if_splits)

lemma unlink_node_Some_find:
  "unlink_node p xs = Some (sz, r) \<Longrightarrow>
   map_option a_size (find (\<lambda>a. a_ptr a = p) xs) = Some sz"
  by (induction xs arbitrary: r) (auto split: option.splits if_splits)

lemma unlink_node_recorded:
  "unlink_node p (head_allocs s) = Some (sz, rest) \<Longrightarrow> recorded_size p s = sz"
  using unlink_node_Some_find [of p "head_allocs s" sz rest]
  by (auto simp: recorded_size_def split: option.splits)

lemma tracked_unlink:
  assumes "p \<in> set (ledger_ptrs s)"
  obtains rest where "unlink_node p (head_allocs s) = Some (recorded_size p s, rest)"
    and "map a_ptr rest = remove1 p (ledger_ptrs s)"
    and "length (head_allocs s) = Suc (length rest)"
proof -
  from assms have "unlink_node p (head_allocs s) \<noteq> None"
    by (simp add: unlink_node_None ledger_ptrs_def)
  then obtain sz rest where u: "unlink_node p (head_allocs s) = Some (sz, rest)" by auto
  with unlink_node_recorded have "sz = recorded_size p s" by simp
  with u that show thesis
    by (simp add: unlink_node_Some_ptrs unlink_node_Some_length ledger_ptrs_def)
qed

lemma untracked_unlink:
  "p \<notin> set (ledger_ptrs s) \<Longrightarrow> unlink_node p (head_allocs s) = None"
  by (simp add: unlink_node_None ledger_ptrs_def)

subsection \<open>Fields left alone by the helpers\<close>

lemma emit_globals [simp]:
  "head_allocs (emit e s) = head_allocs s"
  "head_freed (emit e s) = head_freed s"
  "total_alloc_calls (emit e s) = total_alloc_calls s"
  "total_free_calls (emit e s) = total_free_calls s"
  "total_bytes_allocated (emit e s) = total_bytes_allocated s"
  "total_bytes_freed (emit e s) = total_bytes_freed s"
  "invalid_free_count (emit e s) = invalid_free_count s"
  "double_free_count (emit e s) = double_free_count s"
  "atexit_registered (emit e s) = atexit_registered s"
  "events (emit e s) = events s @ [e]"
  by (simp_all add: emit_def)

lemma register_leak_report_globals [simp]:
  "head_allocs (register_leak_report s) = head_allocs s"
  "head_freed (register_leak_report s) = head_freed s"
  "total_alloc_calls (register_leak_report s) = total_alloc_calls s"
  "total_free_calls (register_leak_report s) = total_free_calls s"
  "total_bytes_allocated (register_leak_report s) = total_bytes_allocated s"
  "total_bytes_freed (register_leak_report s) = total_bytes_freed s"
  "invalid_free_count (register_leak_report s) = invalid_free_count s"
  "double_free_count (register_leak_report s) = double_free_count s"
  "atexit_registered (register_leak_report s) =
     (if atexit_registered s = 0 then 1 else atexit_registered s)"
  "events (register_leak_report s) =
     (if atexit_registered s = 0 then events s @ [Atexit_leak_report] else events s)"
  by (simp_all add: register_leak_report_def)

lemma add_to_freed_list_globals [simp]:
  "head_allocs (add_to_freed_list b p s) = head_allocs s"
  "head_freed (add_to_freed_list b p s) = (if b then p # head_freed s else head_freed s)"
  "total_alloc_calls (add_to_freed_list b p s) = total_alloc_calls s"
  "total_free_calls (add_to_freed_list b p s) = total_free_calls s"
  "total_bytes_allocated (add_to_freed_list b p s) = total_bytes_allocated s"
  "total_bytes_freed (add_to_freed_list b p s) = total_bytes_freed s"
  "invalid_free_count (add_to_freed_list b p s) = invalid_free_count s"
  "double_free_count (add_to_freed_list b p s) = double_free_count s"
  "atexit_registered (add_to_freed_list b p s) = atexit_registered s"
  "events (add_to_freed_list b p s) =
     (if b then events s else events s @ [Stderr FreedInfo_failed])"
  by (simp_all add: add_to_freed_list_def)

lemma record_allocation_globals [simp]:
  "head_allocs (record_allocation b p sz file line s) =
     (if b then \<lparr>a_ptr = p, a_size = sz, a_file = file, a_line = line\<rparr> # head_allocs s
      else head_allocs s)"
  "head_freed (record_allocation b p sz file line s) = head_freed s"
  "total_alloc_calls (record_allocation b p sz file line s) =
     (if b then total_alloc_calls s + 1 else total_alloc_calls s)"
  "total_free_calls (record_allocation b p sz file line s) = total_free_calls s"
  "total_bytes_allocated (record_allocation b p sz file line s) =
     (if b then total_bytes_allocated s + sz else total_bytes_allocated s)"
  "total_bytes_freed (record_allocation b p sz file line s) = total_bytes_freed s"
  "invalid_free_count (record_allocation b p sz file line s) = invalid_free_count s"
  "double_free_count (record_allocation b p sz file line s) = double_free_count s"
  "atexit_registered (record_allocation b p sz file line s) = atexit_registered s"
  "events (record_allocation b p sz file line s) =
     (if b then events s else events s @ [Stderr Tracking_node_failed])"
  by (simp_all add: record_allocation_def)

lemma ledger_ptrs_simps [simp]:
  "ledger_ptrs (emit e s) = ledger_ptrs s"
  "ledger_ptrs (register_leak_report s) = ledger_ptrs s"
  "ledger_ptrs (add_to_freed_list b p s) = ledger_ptrs s"
  "ledger_ptrs (record_allocation b p sz file line s) =
     (if b then p # ledger_ptrs s else ledger_ptrs s)"
  "ledger_ptrs (head_allocs_update (\<lambda>_. xs) s) = map a_ptr xs"
  "ledger_ptrs (head_freed_update f1 s) = ledger_ptrs s"
  "ledger_ptrs (total_free_calls_update f3 s) = ledger_ptrs s"
  "ledger_ptrs (total_bytes_freed_update f5 s) = ledger_ptrs s"
  "ledger_ptrs (invalid_free_count_update f6 s) = ledger_ptrs s"
  "ledger_ptrs (double_free_count_update f7 s) = ledger_ptrs s"
  by (simp_all add: ledger_ptrs_def)

section \<open>The paths through the wrappers\<close>

text \<open>
  \<open>register_leak_report\<close> tests the flag itself, so the test the three allocating
  wrappers make before they call it changes nothing.
\<close>

lemma guarded_register:
  "(if atexit_registered s = 0 then register_leak_report s else s) = register_leak_report s"
  by (simp add: register_leak_report_def)

lemma my_malloc_eq:
  "my_malloc E sz file line s =
     (if ret E = NULL
      then (NULL, emit (Stderr (Malloc_failed sz file line))
                    (emit (Real_malloc sz NULL) (register_leak_report s)))
      else (ret E, record_allocation (alloc_node E) (ret E) sz file line
                     (emit (Real_malloc sz (ret E)) (register_leak_report s))))"
  by (simp add: my_malloc_def guarded_register Let_def)

lemma my_calloc_eq:
  "my_calloc E nmemb sz file line s =
     (if ret E = NULL
      then (NULL, emit (Stderr (Calloc_failed nmemb sz file line))
                    (emit (Real_calloc nmemb sz NULL) (register_leak_report s)))
      else (ret E, record_allocation (alloc_node E) (ret E) (nmemb * sz) file line
                     (emit (Real_calloc nmemb sz (ret E)) (register_leak_report s))))"
  by (simp add: my_calloc_def guarded_register Let_def)

lemma my_free_NULL:
  "my_free E NULL file line s = s\<lparr>total_free_calls := total_free_calls s + 1\<rparr>"
  by (simp add: my_free_def)

lemma my_free_found:
  assumes "p \<noteq> NULL" and "unlink_node p (head_allocs s) = Some (sz, rest)"
  shows "my_free E p file line s =
           emit (Real_free p)
             (add_to_freed_list (freed_node E) p
                (s\<lparr>total_free_calls := total_free_calls s + 1, head_allocs := rest,
                   total_bytes_freed := total_bytes_freed s + sz\<rparr>))"
  using assms by (simp add: my_free_def remove_allocation_node_def)

lemma my_free_not_found:
  assumes "p \<noteq> NULL" and "unlink_node p (head_allocs s) = None"
  shows "my_free E p file line s =
           (if p \<in> set (head_freed s)
            then emit (Stderr (Double_free p file line))
                   (s\<lparr>total_free_calls := total_free_calls s + 1,
                      double_free_count := double_free_count s + 1\<rparr>)
            else emit (Stderr (Free_untracked p file line))
                   (s\<lparr>total_free_calls := total_free_calls s + 1,
                      invalid_free_count := invalid_free_count s + 1\<rparr>))"
  using assms by (simp add: my_free_def remove_allocation_node_def is_in_freed_list_iff)

lemma my_realloc_NULL:
  "my_realloc E NULL sz file line s =
     (if ret E = NULL
      then (NULL, emit (Stderr (Realloc_null_failed sz file line))
                    (emit (Real_malloc sz NULL) (register_leak_report s)))
      else (ret E, record_allocation (alloc_node E) (ret E) sz file line
                     (emit (Real_malloc sz (ret E)) (register_leak_report s))))"
  by (simp add: my_realloc_def guarded_register Let_def)

lemma my_realloc_zero:
  "p \<noteq> NULL \<Longrightarrow>
   my_realloc E p 0 file line s = (NULL, my_free E p file line (register_leak_report s))"
  by (simp add: my_realloc_def guarded_register)

lemma my_realloc_not_found:
  assumes "p \<noteq> NULL" and "sz \<noteq> 0" and "unlink_node p (head_allocs s) = None"
  shows "my_realloc E p sz file line s =
           (ret E,
            emit (Real_realloc p sz (ret E))
              (if p \<in> set (head_freed s)
               then emit (Stderr (Double_free p file line))
                      ((register_leak_report s)
                         \<lparr>double_free_count := double_free_count s + 1\<rparr>)
               else emit (Stderr (Realloc_untracked p file line))
                      ((register_leak_report s)
                         \<lparr>invalid_free_count := invalid_free_count s + 1\<rparr>)))"
  using assms
  by (simp add: my_realloc_def remove_allocation_node_def is_in_freed_list_iff
        guarded_register)

lemma my_realloc_found:
  assumes "p \<noteq> NULL" and "sz \<noteq> 0"
    and "unlink_node p (head_allocs s) = Some (old_size, rest)"
  shows "my_realloc E p sz file line s =
           (if ret E = NULL
            then (NULL, emit (Stderr (Realloc_failed p sz file line))
                          (emit (Real_realloc p sz NULL)
                             ((register_leak_report s)\<lparr>head_allocs := rest\<rparr>)))
            else (ret E,
                  (record_allocation (alloc_node E) (ret E) sz file line
                     (add_to_freed_list (freed_node E) p
                        (emit (Real_realloc p sz (ret E))
                           ((register_leak_report s)\<lparr>head_allocs := rest\<rparr>))))
                  \<lparr>total_bytes_freed := total_bytes_freed s + old_size\<rparr>))"
  using assms
  by (simp add: my_realloc_def remove_allocation_node_def guarded_register Let_def
        record_allocation_def add_to_freed_list_def emit_def register_leak_report_def)

subsection \<open>The active list and the flag after each wrapper\<close>

lemma my_malloc_ptrs:
  "ledger_ptrs (snd (my_malloc E sz file line s)) =
     (if ret E \<noteq> NULL \<and> alloc_node E then ret E # ledger_ptrs s else ledger_ptrs s)"
  by (simp add: my_malloc_eq)

lemma my_calloc_ptrs:
  "ledger_ptrs (snd (my_calloc E nmemb sz file line s)) =
     (if ret E \<noteq> NULL \<and> alloc_node E then ret E # ledger_ptrs s else ledger_ptrs s)"
  by (simp add: my_calloc_eq)

lemma my_free_ptrs:
  "ledger_ptrs (my_free E p file line s) =
     (if p = NULL then ledger_ptrs s else remove1 p (ledger_ptrs s))"
proof (cases "p = NULL")
  case True
  then show ?thesis by (simp add: my_free_NULL)
next
  case False
  show ?thesis
  proof (cases "p \<in> set (ledger_ptrs s)")
    case True
    then obtain rest where "unlink_node p (head_allocs s) = Some (recorded_size p s, rest)"
      and "map a_ptr rest = remove1 p (ledger_ptrs s)"
      by (rule tracked_unlink)
    with False show ?thesis by (simp add: my_free_found)
  next
    case False
    with \<open>p \<noteq> NULL\<close> show ?thesis
      by (simp add: my_free_not_found untracked_unlink remove1_idem)
  qed
qed

lemma my_free_flag: "atexit_registered (my_free E p file line s) = atexit_registered s"
proof (cases "p = NULL")
  case True
  then show ?thesis by (simp add: my_free_NULL)
next
  case False
  show ?thesis
  proof (cases "p \<in> set (ledger_ptrs s)")
    case True
    then obtain rest where "unlink_node p (head_allocs s) = Some (recorded_size p s, rest)"
      by (rule tracked_unlink)
    with False show ?thesis by (simp add: my_free_found)
  next
    case False
    with \<open>p \<noteq> NULL\<close> show ?thesis by (simp add: my_free_not_found untracked_unlink)
  qed
qed

lemma my_free_counted:
  "total_free_calls (my_free E p file line s) = total_free_calls s + 1"
proof (cases "p = NULL")
  case True
  then show ?thesis by (simp add: my_free_NULL)
next
  case False
  show ?thesis
  proof (cases "p \<in> set (ledger_ptrs s)")
    case True
    then obtain rest where "unlink_node p (head_allocs s) = Some (recorded_size p s, rest)"
      by (rule tracked_unlink)
    with False show ?thesis by (simp add: my_free_found)
  next
    case False
    with \<open>p \<noteq> NULL\<close> show ?thesis by (simp add: my_free_not_found untracked_unlink)
  qed
qed

lemma my_malloc_flag: "atexit_registered (snd (my_malloc E sz file line s)) \<noteq> 0"
  by (simp add: my_malloc_eq)

lemma my_calloc_flag: "atexit_registered (snd (my_calloc E nmemb sz file line s)) \<noteq> 0"
  by (simp add: my_calloc_eq)

lemma my_realloc_flag: "atexit_registered (snd (my_realloc E p sz file line s)) \<noteq> 0"
proof (cases "p = NULL")
  case True
  then show ?thesis by (simp add: my_realloc_NULL)
next
  case False
  note p = this
  show ?thesis
  proof (cases "sz = 0")
    case True
    with p show ?thesis by (simp add: my_realloc_zero my_free_flag)
  next
    case False
    note sz = this
    show ?thesis
    proof (cases "p \<in> set (ledger_ptrs s)")
      case True
      then obtain rest where "unlink_node p (head_allocs s) = Some (recorded_size p s, rest)"
        by (rule tracked_unlink)
      with p sz show ?thesis by (simp add: my_realloc_found)
    next
      case False
      with p sz show ?thesis by (simp add: my_realloc_not_found untracked_unlink)
    qed
  qed
qed

lemma my_realloc_no_NULL:
  assumes "NULL \<notin> set (ledger_ptrs s)"
  shows "NULL \<notin> set (ledger_ptrs (snd (my_realloc E p sz file line s)))"
proof (cases "p = NULL")
  case True
  with assms show ?thesis by (simp add: my_realloc_NULL)
next
  case False
  note p = this
  have rem: "NULL \<notin> set (remove1 p (ledger_ptrs s))"
    using assms by (auto dest: notin_set_remove1)
  show ?thesis
  proof (cases "sz = 0")
    case True
    with p rem show ?thesis by (simp add: my_realloc_zero my_free_ptrs)
  next
    case False
    note sz = this
    show ?thesis
    proof (cases "p \<in> set (ledger_ptrs s)")
      case True
      then obtain rest where "unlink_node p (head_allocs s) = Some (recorded_size p s, rest)"
        and "map a_ptr rest = remove1 p (ledger_ptrs s)"
        by (rule tracked_unlink)
      with p sz rem show ?thesis by (simp add: my_realloc_found)
    next
      case False
      with p sz assms show ?thesis by (simp add: my_realloc_not_found untracked_unlink)
    qed
  qed
qed

lemma my_realloc_first_event:
  assumes "atexit_registered s = 0"
  shows "prefix (events s @ [Atexit_leak_report])
           (events (snd (my_realloc E p sz file line s)))"
proof (cases "p = NULL")
  case True
  with assms show ?thesis by (simp add: my_realloc_NULL)
next
  case False
  note p = this
  show ?thesis
  proof (cases "p \<in> set (ledger_ptrs s)")
    case True
    then obtain rest where u: "unlink_node p (head_allocs s) = Some (recorded_size p s, rest)"
      by (rule tracked_unlink)
    show ?thesis
    proof (cases "sz = 0")
      case True
      with p u assms show ?thesis by (simp add: my_realloc_zero my_free_found)
    next
      case False
      with p u assms show ?thesis by (simp add: my_realloc_found)
    qed
  next
    case False
    then have u: "unlink_node p (head_allocs s) = None" by (rule untracked_unlink)
    show ?thesis
    proof (cases "sz = 0")
      case True
      with p u assms show ?thesis by (simp add: my_realloc_zero my_free_not_found)
    next
      case False
      with p u assms show ?thesis by (simp add: my_realloc_not_found)
    qed
  qed
qed

section \<open>Invariants\<close>

subsection \<open>The byte balance\<close>

lemma init_balanced: "ledger_balanced init_tracker"
  by (simp add: balanced_iff init_tracker_def)

lemma record_allocation_balanced:
  "ledger_balanced s \<Longrightarrow> ledger_balanced (record_allocation b p sz file line s)"
  by (simp add: balanced_iff algebra_simps)

lemma emit_balanced: "ledger_balanced (emit e s) = ledger_balanced s"
  by (simp add: balanced_iff)

lemma register_balanced: "ledger_balanced (register_leak_report s) = ledger_balanced s"
  by (simp add: balanced_iff)

lemma my_malloc_balanced:
  "ledger_balanced s \<Longrightarrow> ledger_balanced (snd (my_malloc E sz file line s))"
  by (simp add: my_malloc_eq record_allocation_balanced emit_balanced register_balanced)

lemma my_calloc_balanced:
  "ledger_balanced s \<Longrightarrow> ledger_balanced (snd (my_calloc E nmemb sz file line s))"
  by (simp add: my_calloc_eq record_allocation_balanced emit_balanced register_balanced)

lemma my_free_balanced:
  assumes "ledger_balanced s"
  shows "ledger_balanced (my_free E p file line s)"
proof (cases "p = NULL")
  case True
  with assms show ?thesis by (simp add: my_free_NULL balanced_iff)
next
  case False
  show ?thesis
  proof (cases "unlink_node p (head_allocs s)")
    case None
    with False assms show ?thesis by (simp add: my_free_not_found balanced_iff)
  next
    case (Some r)
    obtain sz rest where r: "r = (sz, rest)" by (cases r)
    from Some r have "sum_list (map a_size (head_allocs s)) = sz + sum_list (map a_size rest)"
      by (simp add: unlink_node_Some_sum)
    with False Some r assms show ?thesis
      by (simp add: my_free_found balanced_iff algebra_simps)
  qed
qed

lemma my_realloc_balanced:
  assumes "ledger_balanced s" and "\<not> lost_resize (Realloc E p sz file line) s"
  shows "ledger_balanced (snd (my_realloc E p sz file line s))"
proof (cases "p = NULL")
  case True
  with assms show ?thesis
    by (simp add: my_realloc_NULL record_allocation_balanced emit_balanced register_balanced)
next
  case False
  note p = this
  show ?thesis
  proof (cases "sz = 0")
    case True
    with p assms show ?thesis
      by (simp add: my_realloc_zero my_free_balanced register_balanced)
  next
    case False
    note sz = this
    show ?thesis
    proof (cases "unlink_node p (head_allocs s)")
      case None
      with p sz assms show ?thesis by (simp add: my_realloc_not_found balanced_iff)
    next
      case (Some r)
      obtain old rest where r: "r = (old, rest)" by (cases r)
      from Some have "p \<in> set (ledger_ptrs s)"
        using unlink_node_None [of p "head_allocs s"] by (simp add: ledger_ptrs_def)
      with assms(2) p sz have ok: "ret E \<noteq> NULL" by simp
      from Some r
      have "sum_list (map a_size (head_allocs s)) = old + sum_list (map a_size rest)"
        by (simp add: unlink_node_Some_sum)
      with p sz Some r ok assms(1) show ?thesis
        by (simp add: my_realloc_found balanced_iff algebra_simps)
    qed
  qed
qed

lemma exec_balanced:
  "ledger_balanced s \<Longrightarrow> \<not> lost_resize c s \<Longrightarrow> ledger_balanced (exec c s)"
  by (cases c)
     (simp_all add: my_malloc_balanced my_calloc_balanced my_realloc_balanced
        my_free_balanced)

lemma run_balanced:
  "ledger_balanced s \<Longrightarrow> no_lost_resize cs s \<Longrightarrow> ledger_balanced (run cs s)"
  by (induction cs arbitrary: s) (simp_all add: exec_balanced)

subsection \<open>No \<open>NULL\<close> in the active list, and no node before the flag is set\<close>

lemma wf_trackerI:
  "NULL \<notin> set (ledger_ptrs s) \<Longrightarrow> atexit_registered s \<noteq> 0 \<Longrightarrow> wf_tracker s"
  by (simp add: wf_tracker_def)

lemma init_wf: "wf_tracker init_tracker"
  by (simp add: wf_tracker_def init_tracker_def ledger_ptrs_def)

lemma my_malloc_wf: "wf_tracker s \<Longrightarrow> wf_tracker (snd (my_malloc E sz file line s))"
  by (rule wf_trackerI) (simp_all add: my_malloc_ptrs my_malloc_flag wf_tracker_def)

lemma my_calloc_wf: "wf_tracker s \<Longrightarrow> wf_tracker (snd (my_calloc E nmemb sz file line s))"
  by (rule wf_trackerI) (simp_all add: my_calloc_ptrs my_calloc_flag wf_tracker_def)

lemma my_realloc_wf:
  assumes "wf_tracker s"
  shows "wf_tracker (snd (my_realloc E p sz file line s))"
proof (rule wf_trackerI)
  from assms have "NULL \<notin> set (ledger_ptrs s)" by (simp add: wf_tracker_def)
  then show "NULL \<notin> set (ledger_ptrs (snd (my_realloc E p sz file line s)))"
    by (rule my_realloc_no_NULL)
qed (rule my_realloc_flag)

lemma my_free_wf:
  assumes "wf_tracker s"
  shows "wf_tracker (my_free E p file line s)"
proof -
  have "set (ledger_ptrs (my_free E p file line s)) \<subseteq> set (ledger_ptrs s)"
    using set_remove1_subset [of p "ledger_ptrs s"] by (simp add: my_free_ptrs)
  moreover have "ledger_ptrs s = [] \<Longrightarrow> ledger_ptrs (my_free E p file line s) = []"
    by (simp add: my_free_ptrs)
  ultimately show ?thesis
    using assms by (auto simp: wf_tracker_def my_free_flag) (simp_all add: ledger_ptrs_def)
qed

lemma exec_wf: "wf_tracker s \<Longrightarrow> wf_tracker (exec c s)"
  by (cases c) (simp_all add: my_malloc_wf my_calloc_wf my_realloc_wf my_free_wf)

lemma run_wf: "wf_tracker s \<Longrightarrow> wf_tracker (run cs s)"
  by (induction cs arbitrary: s) (simp_all add: exec_wf)

lemma run_init_tracked:
  assumes "p \<in> set (ledger_ptrs (run cs init_tracker))"
  shows "p \<noteq> NULL" and "register_leak_report (run cs init_tracker) = run cs init_tracker"
proof -
  have wf: "wf_tracker (run cs init_tracker)" by (simp add: run_wf init_wf)
  with assms show "p \<noteq> NULL" by (auto simp: wf_tracker_def)
  from wf assms have "atexit_registered (run cs init_tracker) \<noteq> 0"
    by (auto simp: wf_tracker_def ledger_ptrs_def)
  then show "register_leak_report (run cs init_tracker) = run cs init_tracker"
    by (simp add: register_leak_report_def)
qed

subsection \<open>Matching pairs\<close>

lemma matched_run:
  assumes "matched live cs" and "ledger_ptrs s = live" and "NULL \<notin> set live"
  shows "head_allocs (run cs s) = [] \<and>
         double_free_count (run cs s) = double_free_count s \<and>
         invalid_free_count (run cs s) = invalid_free_count s \<and>
         no_lost_resize cs s"
  using assms
proof (induction live cs arbitrary: s rule: matched.induct)
  case (1 live)
  then show ?case by (simp add: ledger_ptrs_def)
next
  case (2 live E sz f l cs)
  from "2.prems" have ok: "ret E \<noteq> NULL" "alloc_node E" and m: "matched (ret E # live) cs"
    by simp_all
  have "ledger_ptrs (snd (my_malloc E sz f l s)) = ret E # live"
    using ok "2.prems"(2) by (simp add: my_malloc_ptrs)
  moreover from ok "2.prems"(3) have "NULL \<notin> set (ret E # live)" by simp
  ultimately show ?case using "2.IH" [OF m] ok by (simp add: my_malloc_eq)
next
  case (3 live E p f l cs)
  from "3.prems" have p: "p \<in> set (ledger_ptrs s)" and m: "matched (remove1 p live) cs"
    by simp_all
  from p "3.prems" have nz: "p \<noteq> NULL" by auto
  from p obtain rest where u: "unlink_node p (head_allocs s) = Some (recorded_size p s, rest)"
    by (rule tracked_unlink)
  have "ledger_ptrs (my_free E p f l s) = remove1 p live"
    using nz "3.prems"(2) by (simp add: my_free_ptrs)
  moreover from "3.prems"(3) have "NULL \<notin> set (remove1 p live)"
    by (auto dest: notin_set_remove1)
  ultimately show ?case using "3.IH" [OF m] u nz by (simp add: my_free_found)
qed simp_all

subsection \<open>The demonstration program\<close>

text \<open>The report of demo\_allocs.c: three allocations, four releases, one block leaked.\<close>

lemma demo_allocs_report:
  "leak_report (run demo_allocs init_tracker) =
     \<lparr>rep_alloc_calls = 3, rep_free_calls = 4, rep_bytes_allocated = 52,
      rep_bytes_freed = 32, rep_double_free = 1, rep_invalid_free = 1,
      rep_leaks = [\<lparr>a_ptr = 0x2000, a_size = 20, a_file = ''demo_allocs.c'', a_line = 25\<rparr>],
      rep_summary = Some (1, 20)\<rparr>"
  by (simp add: demo_allocs_def leak_report_def eval_defs)

section \<open>The claims\<close>

subsection \<open>C1: the byte balance\<close>

text \<open>
  C1, as amended. In \<open>size_t\<close> arithmetic, the byte total \<open>leak_report\<close> computes for the
  active list equals \<open>total_bytes_allocated - total_bytes_freed\<close> after every call of
  every run that starts in a state where it does, the initial state among them, as long
  as no call of the run is a \<open>my_realloc\<close> of a tracked block, with a size other than 0,
  whose real \<open>realloc\<close> fails.
\<close>

theorem ledger_sum_invariant:
  "ledger_balanced s \<Longrightarrow> no_lost_resize cs s \<Longrightarrow> ledger_balanced (run cs s)"
  by (rule run_balanced)

theorem ledger_sum_invariant_witness:
  "ledger_balanced init_tracker \<and>
   no_lost_resize
     [Malloc (served 0x1000) 8 ''a.c'' 1, Realloc (served 0x2000) 0x1000 16 ''a.c'' 2,
      Calloc (served 0x3000) 4 4 ''a.c'' 3, Free (served NULL) 0x2000 ''a.c'' 4,
      Realloc exhausted NULL 8 ''a.c'' 5] init_tracker \<and>
   ledger_balanced
     (run [Malloc (served 0x1000) 8 ''a.c'' 1, Realloc (served 0x2000) 0x1000 16 ''a.c'' 2,
           Calloc (served 0x3000) 4 4 ''a.c'' 3, Free (served NULL) 0x2000 ''a.c'' 4,
           Realloc exhausted NULL 8 ''a.c'' 5] init_tracker)"
proof -
  have h1: "ledger_balanced init_tracker" by (rule init_balanced)
  have h2: "no_lost_resize
     [Malloc (served 0x1000) 8 ''a.c'' 1, Realloc (served 0x2000) 0x1000 16 ''a.c'' 2,
      Calloc (served 0x3000) 4 4 ''a.c'' 3, Free (served NULL) 0x2000 ''a.c'' 4,
      Realloc exhausted NULL 8 ''a.c'' 5] init_tracker"
    by (simp add: eval_defs)
  from h1 h2 ledger_sum_invariant [OF h1 h2] show ?thesis by (intro conjI)
qed

text \<open>
  C1 as stated fails: a block of 8 bytes is allocated at 0x1000, then its resize to 16
  bytes fails. The node is gone from the active list, and no byte was counted as freed.
\<close>

theorem ledger_sum_counterexample:
  "leaked_bytes
     (run [Malloc (served 0x1000) 8 ''a.c'' 1, Realloc exhausted 0x1000 16 ''a.c'' 2]
        init_tracker) = 0 \<and>
   total_bytes_allocated
     (run [Malloc (served 0x1000) 8 ''a.c'' 1, Realloc exhausted 0x1000 16 ''a.c'' 2]
        init_tracker) = 8 \<and>
   total_bytes_freed
     (run [Malloc (served 0x1000) 8 ''a.c'' 1, Realloc exhausted 0x1000 16 ''a.c'' 2]
        init_tracker) = 0 \<and>
   \<not> ledger_balanced
     (run [Malloc (served 0x1000) 8 ''a.c'' 1, Realloc exhausted 0x1000 16 ''a.c'' 2]
        init_tracker)"
  by (simp add: eval_defs ledger_balanced_def leaked_bytes_def)

subsection \<open>C2: the flag of the exit handler\<close>

text \<open>
  C2, as amended. After \<open>my_malloc\<close>, \<open>my_calloc\<close> and \<open>my_realloc\<close> the flag
  \<open>atexit_registered\<close> is set, and when it was not set at the call, the registration of
  the exit handler is the first thing the call does, before it calls the real allocator
  or prints. \<open>my_free\<close> leaves the flag as it found it.
\<close>

theorem latch_set_by_allocating_wrappers:
  "atexit_registered (snd (my_malloc E sz file line s)) \<noteq> 0 \<and>
   atexit_registered (snd (my_calloc E nmemb sz file line s)) \<noteq> 0 \<and>
   atexit_registered (snd (my_realloc E p sz file line s)) \<noteq> 0 \<and>
   atexit_registered (my_free E p file line s) = atexit_registered s \<and>
   (atexit_registered s = 0 \<longrightarrow>
      prefix (events s @ [Atexit_leak_report])
        (events (snd (my_malloc E sz file line s))) \<and>
      prefix (events s @ [Atexit_leak_report])
        (events (snd (my_calloc E nmemb sz file line s))) \<and>
      prefix (events s @ [Atexit_leak_report])
        (events (snd (my_realloc E p sz file line s))))"
  by (simp add: my_malloc_flag my_calloc_flag my_realloc_flag my_free_flag
        my_realloc_first_event)
     (simp add: my_malloc_eq my_calloc_eq)

theorem latch_set_by_allocating_wrappers_witness:
  "atexit_registered init_tracker = 0 \<and>
   atexit_registered (snd (my_malloc (served 0x1000) 8 ''a.c'' 1 init_tracker)) \<noteq> 0 \<and>
   atexit_registered (snd (my_calloc (served 0x1000) 2 8 ''a.c'' 1 init_tracker)) \<noteq> 0 \<and>
   atexit_registered
     (snd (my_realloc (served 0x1000) 0x7ffc0000 8 ''a.c'' 1 init_tracker)) \<noteq> 0 \<and>
   atexit_registered (my_free (served 0x1000) 0x7ffc0000 ''a.c'' 1 init_tracker) =
     atexit_registered init_tracker \<and>
   prefix (events init_tracker @ [Atexit_leak_report])
     (events (snd (my_malloc (served 0x1000) 8 ''a.c'' 1 init_tracker))) \<and>
   prefix (events init_tracker @ [Atexit_leak_report])
     (events (snd (my_calloc (served 0x1000) 2 8 ''a.c'' 1 init_tracker))) \<and>
   prefix (events init_tracker @ [Atexit_leak_report])
     (events (snd (my_realloc (served 0x1000) 0x7ffc0000 8 ''a.c'' 1 init_tracker)))"
proof -
  have h: "atexit_registered init_tracker = 0" by (simp add: init_tracker_def)
  from h latch_set_by_allocating_wrappers
         [of "served 0x1000" 8 "''a.c''" 1 init_tracker 2 "0x7ffc0000"]
  show ?thesis by blast
qed

text \<open>
  C2 as stated fails for the release: \<open>my_free\<close> never calls \<open>register_leak_report\<close>.
  The program that only releases the address of a stack variable ends with the flag
  still 0 (and with no exit handler registered).
\<close>

theorem latch_counterexample:
  "atexit_registered init_tracker = 0 \<and>
   atexit_registered (my_free (served NULL) 0x7ffc0000 ''a.c'' 1 init_tracker) = 0 \<and>
   events (my_free (served NULL) 0x7ffc0000 ''a.c'' 1 init_tracker) =
     [Stderr (Free_untracked 0x7ffc0000 ''a.c'' 1)]"
  by (simp add: eval_defs)

subsection \<open>C3: an address the real allocator hands out again\<close>

text \<open>
  C3, as amended. When an identity that is in the freed list is in the active list
  again, its release is a valid one: \<open>my_free\<close> looks in the active list first. The node
  is unlinked, its size is added to the bytes freed, the real \<open>free\<close> is called, and
  neither the double-free count nor the invalid-free count moves. The identity is put in
  the freed list once more when the \<open>FreedInfo\<close> node can be allocated.
\<close>

theorem release_of_reused_identity_is_valid:
  assumes "p \<noteq> NULL" and "p \<in> set (head_freed s)" and "p \<in> set (ledger_ptrs s)"
  shows "double_free_count (my_free E p file line s) = double_free_count s \<and>
         invalid_free_count (my_free E p file line s) = invalid_free_count s \<and>
         ledger_ptrs (my_free E p file line s) = remove1 p (ledger_ptrs s) \<and>
         total_bytes_freed (my_free E p file line s) =
           total_bytes_freed s + recorded_size p s \<and>
         head_freed (my_free E p file line s) =
           (if freed_node E then p # head_freed s else head_freed s) \<and>
         last (events (my_free E p file line s)) = Real_free p"
proof -
  from assms(3) obtain rest
    where "unlink_node p (head_allocs s) = Some (recorded_size p s, rest)"
      and "map a_ptr rest = remove1 p (ledger_ptrs s)"
    by (rule tracked_unlink)
  with assms(1) show ?thesis by (simp add: my_free_found)
qed

theorem release_of_reused_identity_is_valid_witness:
  "(0x1000 :: void_ptr) \<noteq> NULL \<and>
   0x1000 \<in> set (head_freed
     (run [Malloc (served 0x1000) 8 ''a.c'' 1, Free (served NULL) 0x1000 ''a.c'' 2,
           Malloc (served 0x1000) 12 ''a.c'' 3] init_tracker)) \<and>
   0x1000 \<in> set (ledger_ptrs
     (run [Malloc (served 0x1000) 8 ''a.c'' 1, Free (served NULL) 0x1000 ''a.c'' 2,
           Malloc (served 0x1000) 12 ''a.c'' 3] init_tracker)) \<and>
   double_free_count (my_free (served NULL) 0x1000 ''a.c'' 4
     (run [Malloc (served 0x1000) 8 ''a.c'' 1, Free (served NULL) 0x1000 ''a.c'' 2,
           Malloc (served 0x1000) 12 ''a.c'' 3] init_tracker)) =
   double_free_count
     (run [Malloc (served 0x1000) 8 ''a.c'' 1, Free (served NULL) 0x1000 ''a.c'' 2,
           Malloc (served 0x1000) 12 ''a.c'' 3] init_tracker)"
proof -
  have h1: "(0x1000 :: void_ptr) \<noteq> NULL" by simp
  have h2: "0x1000 \<in> set (head_freed
     (run [Malloc (served 0x1000) 8 ''a.c'' 1, Free (served NULL) 0x1000 ''a.c'' 2,
           Malloc (served 0x1000) 12 ''a.c'' 3] init_tracker))"
    by (simp add: eval_defs)
  have h3: "0x1000 \<in> set (ledger_ptrs
     (run [Malloc (served 0x1000) 8 ''a.c'' 1, Free (served NULL) 0x1000 ''a.c'' 2,
           Malloc (served 0x1000) 12 ''a.c'' 3] init_tracker))"
    by (simp add: eval_defs)
  from h1 h2 h3
    release_of_reused_identity_is_valid [OF h1 h2 h3, of "served NULL" "''a.c''" 4]
  show ?thesis by blast
qed

text \<open>
  C3 as stated fails: 0x1000 is allocated, released, served again by the real allocator
  and released again. The second release finds the node in the active list, and the
  double-free count stays 0.
\<close>

theorem reused_identity_counterexample:
  "0x1000 \<in> set (head_freed
     (run [Malloc (served 0x1000) 8 ''a.c'' 1, Free (served NULL) 0x1000 ''a.c'' 2,
           Malloc (served 0x1000) 12 ''a.c'' 3] init_tracker)) \<and>
   0x1000 \<in> set (ledger_ptrs
     (run [Malloc (served 0x1000) 8 ''a.c'' 1, Free (served NULL) 0x1000 ''a.c'' 2,
           Malloc (served 0x1000) 12 ''a.c'' 3] init_tracker)) \<and>
   double_free_count
     (run [Malloc (served 0x1000) 8 ''a.c'' 1, Free (served NULL) 0x1000 ''a.c'' 2,
           Malloc (served 0x1000) 12 ''a.c'' 3, Free (served NULL) 0x1000 ''a.c'' 4]
        init_tracker) = 0 \<and>
   total_bytes_freed
     (run [Malloc (served 0x1000) 8 ''a.c'' 1, Free (served NULL) 0x1000 ''a.c'' 2,
           Malloc (served 0x1000) 12 ''a.c'' 3, Free (served NULL) 0x1000 ''a.c'' 4]
        init_tracker) = 20"
  by (simp add: eval_defs)

subsection \<open>C4: matching pairs of allocations and releases\<close>

text \<open>
  C4. A program made of \<open>my_malloc\<close> and \<open>my_free\<close> calls, in which every allocation of
  the real allocator succeeds, every release is of a block allocated and not yet
  released, and every block is released in the end, leaves the active list empty, both
  counts of bad releases at 0, and as many bytes freed as allocated. The pairs may be
  interleaved, and the real allocator may serve an address again once it is released.
\<close>

theorem matched_pairs_leave_nothing:
  assumes "matched [] cs"
  shows "head_allocs (run cs init_tracker) = [] \<and>
         double_free_count (run cs init_tracker) = 0 \<and>
         invalid_free_count (run cs init_tracker) = 0 \<and>
         total_bytes_allocated (run cs init_tracker) =
           total_bytes_freed (run cs init_tracker)"
proof -
  have l: "ledger_ptrs init_tracker = []" by (simp add: ledger_ptrs_def init_tracker_def)
  note r = matched_run [OF assms l, simplified]
  from r have "ledger_balanced (run cs init_tracker)"
    by (intro run_balanced init_balanced) simp
  with r show ?thesis by (simp add: balanced_iff init_tracker_def)
qed

theorem matched_pairs_leave_nothing_witness:
  "matched []
     [Malloc (served 0x1000) 20 ''a.c'' 1, Malloc (served 0x2000) 12 ''a.c'' 2,
      Free (served NULL) 0x1000 ''a.c'' 3, Malloc (served 0x1000) 8 ''a.c'' 4,
      Free (served NULL) 0x1000 ''a.c'' 5, Free (served NULL) 0x2000 ''a.c'' 6] \<and>
   head_allocs (run
     [Malloc (served 0x1000) 20 ''a.c'' 1, Malloc (served 0x2000) 12 ''a.c'' 2,
      Free (served NULL) 0x1000 ''a.c'' 3, Malloc (served 0x1000) 8 ''a.c'' 4,
      Free (served NULL) 0x1000 ''a.c'' 5, Free (served NULL) 0x2000 ''a.c'' 6]
     init_tracker) = [] \<and>
   double_free_count (run
     [Malloc (served 0x1000) 20 ''a.c'' 1, Malloc (served 0x2000) 12 ''a.c'' 2,
      Free (served NULL) 0x1000 ''a.c'' 3, Malloc (served 0x1000) 8 ''a.c'' 4,
      Free (served NULL) 0x1000 ''a.c'' 5, Free (served NULL) 0x2000 ''a.c'' 6]
     init_tracker) = 0"
proof -
  have h: "matched []
     [Malloc (served 0x1000) 20 ''a.c'' 1, Malloc (served 0x2000) 12 ''a.c'' 2,
      Free (served NULL) 0x1000 ''a.c'' 3, Malloc (served 0x1000) 8 ''a.c'' 4,
      Free (served NULL) 0x1000 ''a.c'' 5, Free (served NULL) 0x2000 ''a.c'' 6]"
    by (simp add: served_def)
  from h matched_pairs_leave_nothing [OF h] show ?thesis by blast
qed

subsection \<open>C5: releasing an identity twice\<close>

text \<open>
  C5, as amended. Let \<open>p\<close> be held once by the active list, and release it twice in
  succession. The first release unlinks one node and counts no bad release; it puts \<open>p\<close>
  in the freed list when its \<open>FreedInfo\<close> node can be allocated and leaves the freed
  list as it was when it cannot. The second release leaves the bytes freed alone. It adds
  one to the double-free count, and nothing to the invalid-free count, when \<open>p\<close> is in
  the freed list by then: the node of the first release was allocated, or \<open>p\<close> was there
  already from an earlier release of the same address. Otherwise it adds one to the
  invalid-free count and nothing to the double-free count.
\<close>

theorem double_release_detected:
  assumes "p \<noteq> NULL" and "p \<in> set (ledger_ptrs s)" and "distinct (ledger_ptrs s)"
    and "s1 = my_free E1 p file1 line1 s" and "s2 = my_free E2 p file2 line2 s1"
  shows "length (head_allocs s1) + 1 = length (head_allocs s) \<and>
         head_freed s1 = (if freed_node E1 then p # head_freed s else head_freed s) \<and>
         double_free_count s1 = double_free_count s \<and>
         invalid_free_count s1 = invalid_free_count s \<and>
         total_bytes_freed s2 = total_bytes_freed s1 \<and>
         (if freed_node E1 \<or> p \<in> set (head_freed s)
          then double_free_count s2 = double_free_count s1 + 1 \<and>
               invalid_free_count s2 = invalid_free_count s1
          else invalid_free_count s2 = invalid_free_count s1 + 1 \<and>
               double_free_count s2 = double_free_count s1)"
proof -
  from assms(2) obtain rest
    where u: "unlink_node p (head_allocs s) = Some (recorded_size p s, rest)"
      and r: "map a_ptr rest = remove1 p (ledger_ptrs s)"
      and n: "length (head_allocs s) = Suc (length rest)"
    by (rule tracked_unlink)
  from assms(1,4) u
  have s1: "s1 = emit (Real_free p)
                   (add_to_freed_list (freed_node E1) p
                      (s\<lparr>total_free_calls := total_free_calls s + 1, head_allocs := rest,
                         total_bytes_freed := total_bytes_freed s + recorded_size p s\<rparr>))"
    by (simp add: my_free_found)
  have first: "length (head_allocs s1) + 1 = length (head_allocs s)"
    "head_freed s1 = (if freed_node E1 then p # head_freed s else head_freed s)"
    "double_free_count s1 = double_free_count s"
    "invalid_free_count s1 = invalid_free_count s"
    using n by (simp_all add: s1)
  from assms(3) r have "p \<notin> set (ledger_ptrs s1)" by (simp add: s1)
  then have u1: "unlink_node p (head_allocs s1) = None" by (rule untracked_unlink)
  have known: "p \<in> set (head_freed s1) \<longleftrightarrow> freed_node E1 \<or> p \<in> set (head_freed s)"
    by (simp add: first(2))
  from assms(1,5) u1
  have s2: "s2 = (if p \<in> set (head_freed s1)
                  then emit (Stderr (Double_free p file2 line2))
                         (s1\<lparr>total_free_calls := total_free_calls s1 + 1,
                             double_free_count := double_free_count s1 + 1\<rparr>)
                  else emit (Stderr (Free_untracked p file2 line2))
                         (s1\<lparr>total_free_calls := total_free_calls s1 + 1,
                             invalid_free_count := invalid_free_count s1 + 1\<rparr>))"
    by (simp add: my_free_not_found)
  have second: "total_bytes_freed s2 = total_bytes_freed s1 \<and>
         (if freed_node E1 \<or> p \<in> set (head_freed s)
          then double_free_count s2 = double_free_count s1 + 1 \<and>
               invalid_free_count s2 = invalid_free_count s1
          else invalid_free_count s2 = invalid_free_count s1 + 1 \<and>
               double_free_count s2 = double_free_count s1)"
  proof (cases "p \<in> set (head_freed s1)")
    case True
    with s2 known show ?thesis by simp
  next
    case False
    with s2 known show ?thesis by simp
  qed
  with first show ?thesis by simp
qed

theorem double_release_detected_witness:
  "(0x1000 :: void_ptr) \<noteq> NULL \<and>
   0x1000 \<in> set (ledger_ptrs (run [Malloc (served 0x1000) 12 ''a.c'' 1] init_tracker)) \<and>
   distinct (ledger_ptrs (run [Malloc (served 0x1000) 12 ''a.c'' 1] init_tracker)) \<and>
   freed_node (served NULL) \<and>
   head_freed
     (my_free (served NULL) 0x1000 ''a.c'' 2
        (run [Malloc (served 0x1000) 12 ''a.c'' 1] init_tracker)) =
   0x1000 # head_freed (run [Malloc (served 0x1000) 12 ''a.c'' 1] init_tracker) \<and>
   double_free_count
     (my_free (served NULL) 0x1000 ''a.c'' 3
        (my_free (served NULL) 0x1000 ''a.c'' 2
           (run [Malloc (served 0x1000) 12 ''a.c'' 1] init_tracker))) =
   double_free_count
     (my_free (served NULL) 0x1000 ''a.c'' 2
        (run [Malloc (served 0x1000) 12 ''a.c'' 1] init_tracker)) + 1"
proof -
  have h1: "(0x1000 :: void_ptr) \<noteq> NULL" by simp
  have h2: "0x1000 \<in> set (ledger_ptrs
              (run [Malloc (served 0x1000) 12 ''a.c'' 1] init_tracker))"
    by (simp add: eval_defs)
  have h3: "distinct (ledger_ptrs (run [Malloc (served 0x1000) 12 ''a.c'' 1] init_tracker))"
    by (simp add: eval_defs)
  have h4: "freed_node (served NULL)" by (simp add: served_def)
  note c = double_release_detected
             [OF h1 h2 h3 refl refl, of "served NULL" "''a.c''" 2 "served NULL" "''a.c''" 3]
  from c h4 have "head_freed
     (my_free (served NULL) 0x1000 ''a.c'' 2
        (run [Malloc (served 0x1000) 12 ''a.c'' 1] init_tracker)) =
     0x1000 # head_freed (run [Malloc (served 0x1000) 12 ''a.c'' 1] init_tracker)"
    by simp
  moreover from c h4 have "double_free_count
     (my_free (served NULL) 0x1000 ''a.c'' 3
        (my_free (served NULL) 0x1000 ''a.c'' 2
           (run [Malloc (served 0x1000) 12 ''a.c'' 1] init_tracker))) =
     double_free_count
       (my_free (served NULL) 0x1000 ''a.c'' 2
          (run [Malloc (served 0x1000) 12 ''a.c'' 1] init_tracker)) + 1"
    by simp
  ultimately show ?thesis using h1 h2 h3 h4 by (intro conjI)
qed

text \<open>
  C5 as stated fails when the \<open>FreedInfo\<close> node of the first release cannot be
  allocated and the identity was never released before: \<open>add_to_freed_list\<close> returns
  without recording it, the freed list stays empty, and the second release is counted as
  an invalid one.
\<close>

theorem double_release_counterexample:
  "0x1000 \<in> set (ledger_ptrs (run [Malloc (served 0x1000) 12 ''a.c'' 1] init_tracker)) \<and>
   head_freed
     (my_free no_freed_node 0x1000 ''a.c'' 2
        (run [Malloc (served 0x1000) 12 ''a.c'' 1] init_tracker)) =
   head_freed (run [Malloc (served 0x1000) 12 ''a.c'' 1] init_tracker) \<and>
   double_free_count
     (my_free (served NULL) 0x1000 ''a.c'' 3
        (my_free no_freed_node 0x1000 ''a.c'' 2
           (run [Malloc (served 0x1000) 12 ''a.c'' 1] init_tracker))) = 0 \<and>
   invalid_free_count
     (my_free (served NULL) 0x1000 ''a.c'' 3
        (my_free no_freed_node 0x1000 ''a.c'' 2
           (run [Malloc (served 0x1000) 12 ''a.c'' 1] init_tracker))) = 1"
  by (simp add: eval_defs)

subsection \<open>C6: \<open>my_realloc\<close> of \<open>NULL\<close>\<close>

text \<open>
  C6. For every size and origin, and the same answers of the real allocator,
  \<open>my_realloc(NULL, n)\<close> and \<open>my_malloc(n)\<close> return the same pointer and leave the same
  values in all file-level variables: the two lists, the six counters and the flag. They
  also make the same calls outside; only the text printed on failure differs.
\<close>

theorem realloc_NULL_is_malloc:
  "fst (my_realloc E NULL n file line s) = fst (my_malloc E n file line s) \<and>
   globals (snd (my_realloc E NULL n file line s)) =
     globals (snd (my_malloc E n file line s)) \<and>
   filter (\<lambda>e. \<not> is_diag e) (events (snd (my_realloc E NULL n file line s))) =
     filter (\<lambda>e. \<not> is_diag e) (events (snd (my_malloc E n file line s)))"
  by (simp add: my_realloc_NULL my_malloc_eq globals_def emit_def)

theorem realloc_NULL_is_malloc_witness:
  "fst (my_realloc exhausted NULL 16 ''a.c'' 1 init_tracker) =
     fst (my_malloc exhausted 16 ''a.c'' 1 init_tracker) \<and>
   globals (snd (my_realloc exhausted NULL 16 ''a.c'' 1 init_tracker)) =
     globals (snd (my_malloc exhausted 16 ''a.c'' 1 init_tracker)) \<and>
   filter (\<lambda>e. \<not> is_diag e)
     (events (snd (my_realloc exhausted NULL 16 ''a.c'' 1 init_tracker))) =
   filter (\<lambda>e. \<not> is_diag e)
     (events (snd (my_malloc exhausted 16 ''a.c'' 1 init_tracker)))"
  by (rule realloc_NULL_is_malloc)

subsection \<open>C7: \<open>my_realloc\<close> to size 0\<close>

text \<open>
  C7, as amended. In every state a program can reach, for every \<open>p\<close> in the active
  list, \<open>my_realloc(p, 0)\<close> returns \<open>NULL\<close> and leaves exactly the state \<open>my_free(p)\<close>
  leaves: one node of \<open>p\<close> is unlinked, the bytes freed grow by the size recorded for
  \<open>p\<close>, the count of free calls grows by one, and the freed list grows by \<open>p\<close> when the
  \<open>FreedInfo\<close> node can be allocated and is unchanged when it cannot.
\<close>

theorem realloc_zero_is_free:
  assumes "s = run cs init_tracker" and "p \<in> set (ledger_ptrs s)"
    and "r = my_realloc E p 0 file line s"
  shows "r = (NULL, my_free E p file line s) \<and>
         ledger_ptrs (snd r) = remove1 p (ledger_ptrs s) \<and>
         head_freed (snd r) = (if freed_node E then p # head_freed s else head_freed s) \<and>
         total_bytes_freed (snd r) = total_bytes_freed s + recorded_size p s \<and>
         total_free_calls (snd r) = total_free_calls s + 1"
proof -
  from assms(1,2) have p: "p \<noteq> NULL" and reg: "register_leak_report s = s"
    by (simp_all add: run_init_tracked)
  from assms(2) obtain rest
    where "unlink_node p (head_allocs s) = Some (recorded_size p s, rest)"
      and "map a_ptr rest = remove1 p (ledger_ptrs s)"
    by (rule tracked_unlink)
  with p reg assms(3) show ?thesis by (simp add: my_realloc_zero my_free_found)
qed

theorem realloc_zero_is_free_witness:
  "0x1000 \<in> set (ledger_ptrs (run [Malloc (served 0x1000) 12 ''a.c'' 1] init_tracker)) \<and>
   my_realloc (served NULL) 0x1000 0 ''a.c'' 2
     (run [Malloc (served 0x1000) 12 ''a.c'' 1] init_tracker) =
   (NULL, my_free (served NULL) 0x1000 ''a.c'' 2
            (run [Malloc (served 0x1000) 12 ''a.c'' 1] init_tracker))"
proof -
  have h: "0x1000 \<in> set (ledger_ptrs
             (run [Malloc (served 0x1000) 12 ''a.c'' 1] init_tracker))"
    by (simp add: eval_defs)
  from h realloc_zero_is_free [OF refl h refl, of "served NULL" "''a.c''" 2]
  show ?thesis by blast
qed

text \<open>
  C7 as stated fails when the \<open>FreedInfo\<close> node cannot be allocated: the block at
  0x1000 is in the active list, \<open>my_realloc(0x1000, 0)\<close> unlinks it and counts its 12
  bytes as freed, and the freed list is as empty as before.
\<close>

theorem realloc_zero_counterexample:
  "0x1000 \<in> set (ledger_ptrs (run [Malloc (served 0x1000) 12 ''a.c'' 1] init_tracker)) \<and>
   head_freed (run [Malloc (served 0x1000) 12 ''a.c'' 1] init_tracker) = [] \<and>
   head_freed
     (snd (my_realloc no_freed_node 0x1000 0 ''a.c'' 2
             (run [Malloc (served 0x1000) 12 ''a.c'' 1] init_tracker))) = [] \<and>
   total_bytes_freed
     (snd (my_realloc no_freed_node 0x1000 0 ''a.c'' 2
             (run [Malloc (served 0x1000) 12 ''a.c'' 1] init_tracker))) = 12"
  by (simp add: eval_defs)

subsection \<open>C8: the count of free calls\<close>

text \<open>
  C8. Every call of \<open>my_free\<close> adds one to \<open>total_free_calls\<close>, whatever path it then
  takes; the increment is the first statement of the function. With \<open>NULL\<close> that is all
  it does: the state it leaves is the state it found with that one counter increased, so
  the two lists, the other five counters, the flag and the outside world are untouched.
\<close>

theorem free_counts_every_call:
  "total_free_calls (my_free E p file line s) = total_free_calls s + 1 \<and>
   my_free E NULL file line s = s\<lparr>total_free_calls := total_free_calls s + 1\<rparr>"
  by (simp add: my_free_counted my_free_NULL)

theorem free_counts_every_call_witness:
  "total_free_calls (my_free (served NULL) 0x7ffc0000 ''a.c'' 1 init_tracker) =
     total_free_calls init_tracker + 1 \<and>
   my_free (served NULL) NULL ''a.c'' 1 init_tracker =
     init_tracker\<lparr>total_free_calls := total_free_calls init_tracker + 1\<rparr>"
  by (rule free_counts_every_call)

subsection \<open>C9: a resize that fails\<close>

text \<open>
  C9, as amended. Let \<open>p\<close> be other than \<open>NULL\<close> and held once by the active list, the
  size other than 0, and let the real \<open>realloc\<close> fail. Then \<open>my_realloc\<close> returns
  \<open>NULL\<close>, \<open>p\<close> is no longer in the active list, and the freed list, the bytes freed, the
  bytes allocated, the count of allocations and both counts of bad releases are as before.
  So \<open>p\<close> is in the freed list afterwards exactly when it was there before, and the next
  release of \<open>p\<close> counts as an invalid free when it was not, as a double free when it
  was.
\<close>

theorem failed_resize_loses_record:
  assumes "p \<noteq> NULL" and "sz \<noteq> 0" and "p \<in> set (ledger_ptrs s)"
    and "distinct (ledger_ptrs s)" and "ret E = NULL"
    and "s1 = snd (my_realloc E p sz file line s)" and "s2 = my_free E2 p file2 line2 s1"
  shows "fst (my_realloc E p sz file line s) = NULL \<and>
         p \<notin> set (ledger_ptrs s1) \<and>
         head_freed s1 = head_freed s \<and>
         total_bytes_freed s1 = total_bytes_freed s \<and>
         total_bytes_allocated s1 = total_bytes_allocated s \<and>
         total_alloc_calls s1 = total_alloc_calls s \<and>
         double_free_count s1 = double_free_count s \<and>
         invalid_free_count s1 = invalid_free_count s \<and>
         (if p \<in> set (head_freed s)
          then double_free_count s2 = double_free_count s1 + 1 \<and>
               invalid_free_count s2 = invalid_free_count s1
          else invalid_free_count s2 = invalid_free_count s1 + 1 \<and>
               double_free_count s2 = double_free_count s1)"
proof -
  from assms(3) obtain rest
    where u: "unlink_node p (head_allocs s) = Some (recorded_size p s, rest)"
      and r: "map a_ptr rest = remove1 p (ledger_ptrs s)"
    by (rule tracked_unlink)
  from assms(1,2,5,6) u
  have s1: "s1 = emit (Stderr (Realloc_failed p sz file line))
                  (emit (Real_realloc p sz NULL)
                     ((register_leak_report s)\<lparr>head_allocs := rest\<rparr>))"
    and f: "fst (my_realloc E p sz file line s) = NULL"
    by (simp_all add: my_realloc_found)
  from assms(4) r have gone: "p \<notin> set (ledger_ptrs s1)" by (simp add: s1)
  then have u1: "unlink_node p (head_allocs s1) = None" by (rule untracked_unlink)
  have h: "head_freed s1 = head_freed s" by (simp add: s1)
  from assms(1,7) u1 h gone f show ?thesis
    by (simp add: my_free_not_found) (simp add: s1)
qed

theorem failed_resize_loses_record_witness:
  "(0x1000 :: void_ptr) \<noteq> NULL \<and> (16 :: size_t) \<noteq> 0 \<and>
   0x1000 \<in> set (ledger_ptrs (run [Malloc (served 0x1000) 8 ''a.c'' 1] init_tracker)) \<and>
   distinct (ledger_ptrs (run [Malloc (served 0x1000) 8 ''a.c'' 1] init_tracker)) \<and>
   ret exhausted = NULL \<and>
   0x1000 \<notin> set (head_freed (run [Malloc (served 0x1000) 8 ''a.c'' 1] init_tracker)) \<and>
   fst (my_realloc exhausted 0x1000 16 ''a.c'' 2
          (run [Malloc (served 0x1000) 8 ''a.c'' 1] init_tracker)) = NULL \<and>
   invalid_free_count
     (my_free (served NULL) 0x1000 ''a.c'' 3
        (snd (my_realloc exhausted 0x1000 16 ''a.c'' 2
                (run [Malloc (served 0x1000) 8 ''a.c'' 1] init_tracker)))) =
   invalid_free_count
     (snd (my_realloc exhausted 0x1000 16 ''a.c'' 2
             (run [Malloc (served 0x1000) 8 ''a.c'' 1] init_tracker))) + 1"
proof -
  have h1: "(0x1000 :: void_ptr) \<noteq> NULL" by simp
  have h2: "(16 :: size_t) \<noteq> 0" by simp
  have h3: "0x1000 \<in> set (ledger_ptrs
              (run [Malloc (served 0x1000) 8 ''a.c'' 1] init_tracker))"
    by (simp add: eval_defs)
  have h4: "distinct (ledger_ptrs (run [Malloc (served 0x1000) 8 ''a.c'' 1] init_tracker))"
    by (simp add: eval_defs)
  have h5: "ret exhausted = NULL" by (simp add: exhausted_def)
  have h6: "0x1000 \<notin> set (head_freed
              (run [Malloc (served 0x1000) 8 ''a.c'' 1] init_tracker))"
    by (simp add: eval_defs)
  from h1 h2 h3 h4 h5 h6
    failed_resize_loses_record
      [OF h1 h2 h3 h4 h5 refl refl, of "''a.c''" 2 "served NULL" "''a.c''" 3]
  show ?thesis by (simp only: if_False) blast
qed

text \<open>
  C9 as stated fails when the real allocator had served the address before: 0x1000 is
  allocated, released, served again, and then its resize fails. The identity is still in
  the freed list from the first release, and its next release counts as a double free.
\<close>

theorem failed_resize_counterexample:
  "0x1000 \<in> set (ledger_ptrs
     (run [Malloc (served 0x1000) 8 ''a.c'' 1, Free (served NULL) 0x1000 ''a.c'' 2,
           Malloc (served 0x1000) 12 ''a.c'' 3] init_tracker)) \<and>
   fst (my_realloc exhausted 0x1000 16 ''a.c'' 4
     (run [Malloc (served 0x1000) 8 ''a.c'' 1, Free (served NULL) 0x1000 ''a.c'' 2,
           Malloc (served 0x1000) 12 ''a.c'' 3] init_tracker)) = NULL \<and>
   0x1000 \<in> set (head_freed (snd (my_realloc exhausted 0x1000 16 ''a.c'' 4
     (run [Malloc (served 0x1000) 8 ''a.c'' 1, Free (served NULL) 0x1000 ''a.c'' 2,
           Malloc (served 0x1000) 12 ''a.c'' 3] init_tracker)))) \<and>
   double_free_count (my_free (served NULL) 0x1000 ''a.c'' 5
     (snd (my_realloc exhausted 0x1000 16 ''a.c'' 4
       (run [Malloc (served 0x1000) 8 ''a.c'' 1, Free (served NULL) 0x1000 ''a.c'' 2,
             Malloc (served 0x1000) 12 ''a.c'' 3] init_tracker)))) = 1 \<and>
   invalid_free_count (my_free (served NULL) 0x1000 ''a.c'' 5
     (snd (my_realloc exhausted 0x1000 16 ''a.c'' 4
       (run [Malloc (served 0x1000) 8 ''a.c'' 1, Free (served NULL) 0x1000 ''a.c'' 2,
             Malloc (served 0x1000) 12 ''a.c'' 3] init_tracker)))) = 0"
  by (simp add: eval_defs)

subsection \<open>C10: a resize of a pointer the active list does not hold\<close>

text \<open>
  C10. Let \<open>p\<close> be other than \<open>NULL\<close> and not in the active list, and the size other
  than 0. Then \<open>my_realloc\<close> adds one to the double-free count when \<open>p\<close> is in the freed
  list and to the invalid-free count when it is not, and to nothing else: the two lists,
  both call counts and both byte totals are as before. It returns what the real
  \<open>realloc\<close> returns without recording it, so the leak listing of the report is the
  same as before the call.
\<close>

theorem resize_of_untracked:
  assumes "p \<noteq> NULL" and "sz \<noteq> 0" and "p \<notin> set (ledger_ptrs s)"
    and "s' = snd (my_realloc E p sz file line s)"
  shows "fst (my_realloc E p sz file line s) = ret E \<and>
         head_allocs s' = head_allocs s \<and>
         head_freed s' = head_freed s \<and>
         total_alloc_calls s' = total_alloc_calls s \<and>
         total_free_calls s' = total_free_calls s \<and>
         total_bytes_allocated s' = total_bytes_allocated s \<and>
         total_bytes_freed s' = total_bytes_freed s \<and>
         (if p \<in> set (head_freed s)
          then double_free_count s' = double_free_count s + 1 \<and>
               invalid_free_count s' = invalid_free_count s
          else invalid_free_count s' = invalid_free_count s + 1 \<and>
               double_free_count s' = double_free_count s) \<and>
         rep_leaks (leak_report s') = rep_leaks (leak_report s) \<and>
         rep_summary (leak_report s') = rep_summary (leak_report s)"
  using assms by (simp add: my_realloc_not_found untracked_unlink leak_report_def)

theorem resize_of_untracked_witness:
  "(0x1000 :: void_ptr) \<noteq> NULL \<and> (64 :: size_t) \<noteq> 0 \<and>
   0x1000 \<notin> set (ledger_ptrs
     (run [Malloc (served 0x1000) 8 ''a.c'' 1, Free (served NULL) 0x1000 ''a.c'' 2]
        init_tracker)) \<and>
   0x1000 \<in> set (head_freed
     (run [Malloc (served 0x1000) 8 ''a.c'' 1, Free (served NULL) 0x1000 ''a.c'' 2]
        init_tracker)) \<and>
   fst (my_realloc (served 0x3000) 0x1000 64 ''a.c'' 3
     (run [Malloc (served 0x1000) 8 ''a.c'' 1, Free (served NULL) 0x1000 ''a.c'' 2]
        init_tracker)) = ret (served 0x3000) \<and>
   head_allocs (snd (my_realloc (served 0x3000) 0x1000 64 ''a.c'' 3
     (run [Malloc (served 0x1000) 8 ''a.c'' 1, Free (served NULL) 0x1000 ''a.c'' 2]
        init_tracker))) =
   head_allocs
     (run [Malloc (served 0x1000) 8 ''a.c'' 1, Free (served NULL) 0x1000 ''a.c'' 2]
        init_tracker) \<and>
   double_free_count (snd (my_realloc (served 0x3000) 0x1000 64 ''a.c'' 3
     (run [Malloc (served 0x1000) 8 ''a.c'' 1, Free (served NULL) 0x1000 ''a.c'' 2]
        init_tracker))) =
   double_free_count
     (run [Malloc (served 0x1000) 8 ''a.c'' 1, Free (served NULL) 0x1000 ''a.c'' 2]
        init_tracker) + 1"
proof -
  have h1: "(0x1000 :: void_ptr) \<noteq> NULL" by simp
  have h2: "(64 :: size_t) \<noteq> 0" by simp
  have h3: "0x1000 \<notin> set (ledger_ptrs
     (run [Malloc (served 0x1000) 8 ''a.c'' 1, Free (served NULL) 0x1000 ''a.c'' 2]
        init_tracker))"
    by (simp add: eval_defs)
  have h4: "0x1000 \<in> set (head_freed
     (run [Malloc (served 0x1000) 8 ''a.c'' 1, Free (served NULL) 0x1000 ''a.c'' 2]
        init_tracker))"
    by (simp add: eval_defs)
  from h1 h2 h3 h4
    resize_of_untracked [OF h1 h2 h3 refl, of "served 0x3000" "''a.c''" 3]
  show ?thesis by (simp only: if_True) blast
qed

end
